theory Spec2Isabelle
  imports Complex_Main "HOL-Library.Word"
begin

section \<open>Numbers\<close>

text \<open>
  Every quantity of the program is a JavaScript \<^verbatim>\<open>number\<close>. The development models
  them as \<^typ>\<open>real\<close>: the arithmetic of the source is kept operation by operation, and
  the rounding of IEEE doubles is outside the model. Array indices and instance counts are
  \<^typ>\<open>nat\<close>.
\<close>

section \<open>Arrays\<close>

text \<open>
  Reading a JavaScript array: \<open>None\<close> stands for \<^verbatim>\<open>undefined\<close>, the result of an
  index beyond the end. Reading a property or calling a method of \<^verbatim>\<open>undefined\<close> throws
  a TypeError, which the functions below return as \<open>None\<close>. The tracker catches it, skips
  the frame and publishes nothing.
\<close>

definition item :: "'a list \<Rightarrow> nat \<Rightarrow> 'a option" where
  "item xs i = (if i < length xs then Some (xs ! i) else None)"

section \<open>Results of the detector (MediaPipe, consumed by HandTracker.tsx)\<close>

text \<open>
  The fields of the detector's results that the tracker reads. A landmark is a point of
  the camera image, a category a label with a score. \<^verbatim>\<open>landmarks\<close> may be missing
  (the tracker tests it), \<^verbatim>\<open>handedness\<close> holds one list of categories per hand.
\<close>

record NormalizedLandmark =
  x :: real
  y :: real

record Category =
  categoryName :: string
  score :: real

record HandLandmarkerResult =
  landmarks :: "NormalizedLandmark list list option"
  handedness :: "Category list list"

section \<open>Data published by the tracker (HandTracker.tsx)\<close>

record HandData =
  present :: bool
  x :: real
  y :: real
  pinch :: real

record TwoHandsData =
  left :: HandData
  right :: HandData

record FaceData =
  present :: bool
  smile :: real
  mouthOpen :: real
  browDown :: real

record InputData =
  hands :: TwoHandsData
  face :: FaceData

section \<open>Constants (constants.ts)\<close>

datatype PaletteName = DEFAULT | JOY | SURPRISE | MOODY

fun PALETTES :: "PaletteName \<Rightarrow> string list" where
  "PALETTES DEFAULT = [''#D7CEA3'', ''#907826'', ''#A46719'', ''#CE3F0E'', ''#1A0C47'']"
| "PALETTES JOY = [''#FF9AA2'', ''#FFB7B2'', ''#FFDAC1'', ''#E2F0CB'', ''#B5EAD7'']"
| "PALETTES SURPRISE = [''#00FF41'', ''#008F11'', ''#003B00'', ''#D0F0C0'', ''#39FF14'']"
| "PALETTES MOODY = [''#001219'', ''#005f73'', ''#0a9396'', ''#94d2bd'', ''#e9d8a6'']"

definition CONFIG_sliceCount :: nat where
  "CONFIG_sliceCount = 60"

definition CONFIG_stackHeight :: real where
  "CONFIG_stackHeight = 12"

section \<open>The spring integrator (class SpringValue)\<close>

record SpringValue =
  "value" :: real
  target :: real
  velocity :: real
  stiffness :: real
  damping :: real

text \<open>The constructor: \<^verbatim>\<open>new SpringValue(initial, stiffness, damping)\<close>.\<close>

definition SpringValue_new :: "real \<Rightarrow> real \<Rightarrow> real \<Rightarrow> SpringValue" where
  "SpringValue_new initial k d =
     \<lparr>value = initial, target = initial, velocity = 0, stiffness = k, damping = d\<rparr>"

text \<open>
  \<^verbatim>\<open>update()\<close>: the three statements of the method, in order. The second reads the
  velocity written by the first.
\<close>

definition update :: "SpringValue \<Rightarrow> SpringValue" where
  "update s =
     (let force = (target s - value s) * stiffness s;
          s1 = s\<lparr>velocity := velocity s * damping s + force\<rparr>
      in s1\<lparr>value := value s1 + velocity s1\<rparr>)"

text \<open>Calling \<^verbatim>\<open>update()\<close> \<open>n\<close> times in a row, the target left alone.\<close>

fun updates :: "nat \<Rightarrow> SpringValue \<Rightarrow> SpringValue" where
  "updates 0 s = s"
| "updates (Suc n) s = updates n (update s)"

section \<open>The frame callback of ColorSlices\<close>

datatype AudioMode = OFF | MIC | THEREMIN

record AudioData =
  low :: real
  high :: real
  vol :: real

subsection \<open>1. Target palette from the face\<close>

text \<open>
  The callback starts from \<^verbatim>\<open>PALETTES.DEFAULT\<close> and intensity 0 and overwrites both in
  the first branch of the cascade that applies. The result is the palette stored in
  \<^verbatim>\<open>targetPaletteRef\<close>, named by its key in \<^verbatim>\<open>PALETTES\<close>, and
  \<^verbatim>\<open>emotionIntensity\<close>.
\<close>

definition nextPalette :: "FaceData \<Rightarrow> PaletteName \<times> real" where
  "nextPalette f =
     (if FaceData.present f then
        if smile f > 0.4 then (JOY, smile f)
        else if mouthOpen f > 0.2 then (SURPRISE, mouthOpen f)
        else if browDown f > 0.3 then (MOODY, browDown f)
        else (DEFAULT, 0)
      else (DEFAULT, 0))"

subsection \<open>2. Spring targets and integration\<close>

record Springs =
  stackHeight :: SpringValue
  twist :: SpringValue
  radiusScale :: SpringValue
  chaos :: SpringValue

text \<open>The four springs as the component creates them.\<close>

definition springs_init :: Springs where
  "springs_init =
     \<lparr>stackHeight = SpringValue_new CONFIG_stackHeight 0.05 0.85,
      twist = SpringValue_new 0 0.03 0.90,
      radiusScale = SpringValue_new 1.0 0.1 0.8,
      chaos = SpringValue_new 0 0.05 0.9\<rparr>"

record Targets =
  targetHeight :: real
  targetTwist :: real
  targetRadius :: real
  targetChaos :: real

text \<open>
  ``Calculate Targets'': the four locals are initialised to the defaults, the left hand
  overwrites height and twist, the right hand radius and chaos.
\<close>

definition calcTargets :: "TwoHandsData \<Rightarrow> Targets" where
  "calcTargets h =
     (let t0 = \<lparr>targetHeight = CONFIG_stackHeight, targetTwist = 0,
                targetRadius = 1.0, targetChaos = 0\<rparr>;
          t1 = (if HandData.present (left h) then
                  (let heightMult = 1.5 + y (left h)
                   in t0\<lparr>targetHeight := CONFIG_stackHeight * max 0.5 heightMult,
                         targetTwist := x (left h) * pi * 4\<rparr>)
                else t0);
          t2 = (if HandData.present (right h) then
                  t1\<lparr>targetRadius := 1.0 + (y (right h) * 0.8),
                     targetChaos := (x (right h) + 1.0) * 0.5\<rparr>
                else t1)
      in t2)"

text \<open>The audio kick: velocity added to two springs when the bass is loud.\<close>

definition kick :: "AudioMode \<Rightarrow> AudioData \<Rightarrow> Springs \<Rightarrow> Springs" where
  "kick audioMode audio sp =
     (if audioMode \<noteq> OFF then
        if low audio > 0.4 then
          (let sp1 = sp\<lparr>radiusScale :=
                       (radiusScale sp)\<lparr>velocity := velocity (radiusScale sp) + low audio * 0.05\<rparr>\<rparr>
           in sp1\<lparr>stackHeight :=
                   (stackHeight sp1)\<lparr>velocity := velocity (stackHeight sp1) + low audio * 0.1\<rparr>\<rparr>)
        else sp
      else sp)"

text \<open>``Update Springs'': the targets are assigned, then every spring is stepped once.\<close>

definition setTargets :: "Targets \<Rightarrow> Springs \<Rightarrow> Springs" where
  "setTargets t sp =
     \<lparr>stackHeight = (stackHeight sp)\<lparr>target := targetHeight t\<rparr>,
      twist = (twist sp)\<lparr>target := targetTwist t\<rparr>,
      radiusScale = (radiusScale sp)\<lparr>target := targetRadius t\<rparr>,
      chaos = (chaos sp)\<lparr>target := targetChaos t\<rparr>\<rparr>"

definition updateAll :: "Springs \<Rightarrow> Springs" where
  "updateAll sp =
     \<lparr>stackHeight = update (stackHeight sp), twist = update (twist sp),
      radiusScale = update (radiusScale sp), chaos = update (chaos sp)\<rparr>"

definition frameSprings :: "AudioMode \<Rightarrow> AudioData \<Rightarrow> TwoHandsData \<Rightarrow> Springs \<Rightarrow> Springs" where
  "frameSprings audioMode audio h sp =
     updateAll (setTargets (calcTargets h) (kick audioMode audio sp))"

subsection \<open>3. Colour blending in the instance loop\<close>

text \<open>
  A colour of the rendering library, by its three channels. The library turns a hex
  string into a colour (\<^verbatim>\<open>new THREE.Color(hex)\<close>, \<^verbatim>\<open>color.set(hex)\<close>); that conversion is
  a parameter \<open>parse\<close> of the functions below.
\<close>

record Color =
  r :: real
  g :: real
  b :: real

text \<open>
  Modelled from the spec: \<^verbatim>\<open>THREE.Color.lerp\<close> is a method of the rendering library, not
  under src/; the spec describes it as component-wise linear interpolation of the colour
  channels, each channel moving by the fraction \<open>alpha\<close> of its distance to the target.
\<close>

definition Color_lerp :: "Color \<Rightarrow> Color \<Rightarrow> real \<Rightarrow> Color" where
  "Color_lerp c t alpha =
     \<lparr>r = r c + (r t - r c) * alpha, g = g c + (g t - g c) * alpha, b = b c + (b t - b c) * alpha\<rparr>"

text \<open>
  Modelled from the spec: \<^verbatim>\<open>THREE.MathUtils.lerp\<close> is a function of the rendering
  library, not under src/; the spec has values ``lerped toward'' a target at a rate.
\<close>

definition MathUtils_lerp :: "real \<Rightarrow> real \<Rightarrow> real \<Rightarrow> real" where
  "MathUtils_lerp a c t = (1 - t) * a + t * c"

definition lerpSpeed :: real where
  "lerpSpeed = 0.15"

text \<open>
  The colour part of the body of the loop over the instances: instance \<open>i\<close> reads the
  target hex of slot \<open>i mod 5\<close>, lerps the current colour of that slot towards it in place
  and hands the colour to the mesh. The geometry part of the body writes the instance
  matrix only and is left out. \<open>None\<close>: the current palette has no such slot and
  \<^verbatim>\<open>.lerp\<close> throws.
\<close>

definition colorStep :: "(string \<Rightarrow> Color) \<Rightarrow> PaletteName \<Rightarrow> nat \<Rightarrow> Color list \<Rightarrow> Color list option" where
  "colorStep parse targetPalette i cur =
     (let targetHex = PALETTES targetPalette ! (i mod 5);
          targetColor = parse targetHex
      in case item cur (i mod 5) of
           None \<Rightarrow> None
         | Some c \<Rightarrow> Some (cur[i mod 5 := Color_lerp c targetColor lerpSpeed]))"

fun colorLoop :: "(string \<Rightarrow> Color) \<Rightarrow> PaletteName \<Rightarrow> nat list \<Rightarrow> Color list \<Rightarrow> Color list option" where
  "colorLoop parse targetPalette [] cur = Some cur"
| "colorLoop parse targetPalette (i # rest) cur =
     (case colorStep parse targetPalette i cur of
        None \<Rightarrow> None
      | Some cur' \<Rightarrow> colorLoop parse targetPalette rest cur')"

text \<open>
  The loop of one frame over \<open>sliceCount\<close> instances; it runs when the mesh is mounted
  (\<^verbatim>\<open>meshRef.current\<close>).
\<close>

definition blendFrame ::
  "bool \<Rightarrow> (string \<Rightarrow> Color) \<Rightarrow> PaletteName \<Rightarrow> nat \<Rightarrow> Color list \<Rightarrow> Color list option" where
  "blendFrame mesh parse targetPalette sliceCount cur =
     (if mesh then colorLoop parse targetPalette [0..<sliceCount] cur else Some cur)"

text \<open>
  For the statements about the loop: the number of instances below \<open>sliceCount\<close> that
  use slot \<open>j\<close>, and \<open>k\<close> lerps in a row of one colour towards one target.
\<close>

definition slotCount :: "nat \<Rightarrow> nat \<Rightarrow> nat" where
  "slotCount sliceCount j = length (filter (\<lambda>i. i mod 5 = j) [0..<sliceCount])"

fun lerps :: "nat \<Rightarrow> Color \<Rightarrow> Color \<Rightarrow> Color" where
  "lerps 0 c t = c"
| "lerps (Suc k) c t = Color_lerp (lerps k c t) t lerpSpeed"

section \<open>The frame callback of ReactiveLighting (Experience.tsx)\<close>

record LightTargets =
  targetColor1 :: string
  targetColor2 :: string
  targetIntensity :: real
  targetAmbient :: real

text \<open>
  ``Logic to determine target lighting state'': every branch assigns all four targets,
  so the targets of a frame depend on the face of that frame only. The colours are kept
  as the hex strings the branch sets.
\<close>

definition lightingTargets :: "FaceData \<Rightarrow> LightTargets" where
  "lightingTargets f =
     (if FaceData.present f then
        if smile f > 0.4 then
          \<lparr>targetColor1 = ''#FF9AA2'', targetColor2 = ''#FFDAC1'',
           targetIntensity = 150, targetAmbient = 1.2\<rparr>
        else if mouthOpen f > 0.2 then
          \<lparr>targetColor1 = ''#39FF14'', targetColor2 = ''#00FF41'',
           targetIntensity = 300, targetAmbient = 0.1\<rparr>
        else if browDown f > 0.3 then
          \<lparr>targetColor1 = ''#001219'', targetColor2 = ''#0a9396'',
           targetIntensity = 200, targetAmbient = 0.05\<rparr>
        else
          \<lparr>targetColor1 = ''#00ffff'', targetColor2 = ''#ffaa00'',
           targetIntensity = 80, targetAmbient = 0.5\<rparr>
      else
        \<lparr>targetColor1 = ''#00ffff'', targetColor2 = ''#ffaa00'',
         targetIntensity = 80, targetAmbient = 0.5\<rparr>)"

text \<open>
  The lights: each ref may be unset, and then its update is skipped. The positions of
  the spot lights follow the clock and are left out.
\<close>

record SpotLight =
  color :: Color
  intensity :: real

record Lights =
  spot1 :: "SpotLight option"
  spot2 :: "SpotLight option"
  ambient :: "real option"

definition lightLerpSpeed :: real where
  "lightLerpSpeed = 0.05"

definition lightingFrame :: "(string \<Rightarrow> Color) \<Rightarrow> FaceData \<Rightarrow> Lights \<Rightarrow> Lights" where
  "lightingFrame parse f L =
     (let t = lightingTargets f
      in \<lparr>spot1 = map_option
             (\<lambda>s. \<lparr>color = Color_lerp (color s) (parse (targetColor1 t)) lightLerpSpeed,
                   intensity = MathUtils_lerp (intensity s) (targetIntensity t) lightLerpSpeed\<rparr>)
             (spot1 L),
          spot2 = map_option
             (\<lambda>s. \<lparr>color = Color_lerp (color s) (parse (targetColor2 t)) lightLerpSpeed,
                   intensity = MathUtils_lerp (intensity s) (targetIntensity t) lightLerpSpeed\<rparr>)
             (spot2 L),
          ambient = map_option (\<lambda>i. MathUtils_lerp i (targetAmbient t) lightLerpSpeed) (ambient L)\<rparr>)"

section \<open>AudioManager: the audio features\<close>

text \<open>
  The effect that runs when the mode changes, as far as it writes \<^verbatim>\<open>audioDataRef\<close>:
  without a listener it returns at once; the THEREMIN and MIC branches build audio nodes
  and leave the features alone; the last branch (OFF) replaces them by zeros.
\<close>

definition setupAudio :: "bool \<Rightarrow> AudioMode \<Rightarrow> AudioData \<Rightarrow> AudioData" where
  "setupAudio listener audioMode a =
     (if \<not> listener then a
      else if audioMode = THEREMIN then a
      else if audioMode = MIC then a
      else \<lparr>low = 0, high = 0, vol = 0\<rparr>)"

text \<open>The local \<^verbatim>\<open>lerp\<close> of the frame callback.\<close>

definition lerp :: "real \<Rightarrow> real \<Rightarrow> real \<Rightarrow> real" where
  "lerp a c t = a + (c - a) * t"

text \<open>
  The analyser is created with \<^verbatim>\<open>fftSize = 512\<close>, which gives it 256 frequency bins, and
  the buffer is a \<^verbatim>\<open>Uint8Array\<close> of that length, filled by the analyser in every
  analysing frame. The buffer is modelled by its bytes at the indices below
  \<open>frequencyBinCount\<close>; the callback reads no other index.
\<close>

definition frequencyBinCount :: nat where
  "frequencyBinCount = 256"

type_synonym Uint8Array = "nat \<Rightarrow> 8 word"

text \<open>
  The band averages of the byte spectrum: bass over bins 0..3, treble over bins 20..99
  (the loop counts them), volume over all bins, each divided by 255.
\<close>

definition analyse :: "Uint8Array \<Rightarrow> real \<times> real \<times> real" where
  "analyse dataArray =
     (let bassSum = (\<Sum>i\<leftarrow>[0..<4]. real (unat (dataArray i)));
          avgBass = (bassSum / 4) / 255;
          highSum = (\<Sum>i\<leftarrow>[20..<100]. real (unat (dataArray i)));
          count = real (length [20..<100]);
          avgHigh = (highSum / count) / 255;
          totalSum = (\<Sum>i\<leftarrow>[0..<frequencyBinCount]. real (unat (dataArray i)));
          avgVol = (totalSum / real frequencyBinCount) / 255
      in (avgBass, avgHigh, avgVol))"

text \<open>
  The frame callback, as far as it writes the features. Without a listener it returns at
  once. The theremin control writes oscillator parameters only and is left out. With an
  analyser, an analysing mode and a buffer the features are smoothed towards the band
  averages; in every other case they decay.
\<close>

definition audioFrame ::
  "bool \<Rightarrow> bool \<Rightarrow> AudioMode \<Rightarrow> Uint8Array option \<Rightarrow> AudioData \<Rightarrow> AudioData" where
  "audioFrame listener analyser audioMode dataArrayRef a =
     (if \<not> listener then a
      else if analyser \<and> (audioMode = MIC \<or> audioMode = THEREMIN) \<and> dataArrayRef \<noteq> None then
        (case analyse (the dataArrayRef) of
           (avgBass, avgHigh, avgVol) \<Rightarrow>
             (let smooth = 0.3
              in \<lparr>low = lerp (low a) avgBass smooth,
                  high = lerp (high a) avgHigh smooth,
                  vol = lerp (vol a) avgVol smooth\<rparr>))
      else
        \<lparr>low = lerp (low a) 0 0.1, high = lerp (high a) 0 0.1, vol = lerp (vol a) 0 0.1\<rparr>)"

text \<open>\<open>n\<close> frames in a row, with the same mode and the same buffer.\<close>

fun audioFrames ::
  "nat \<Rightarrow> bool \<Rightarrow> bool \<Rightarrow> AudioMode \<Rightarrow> Uint8Array option \<Rightarrow> AudioData \<Rightarrow> AudioData" where
  "audioFrames 0 listener analyser audioMode dataArrayRef a = a"
| "audioFrames (Suc n) listener analyser audioMode dataArrayRef a =
     audioFrames n listener analyser audioMode dataArrayRef
       (audioFrame listener analyser audioMode dataArrayRef a)"

section \<open>Hand extraction (predictWebcam in HandTracker.tsx)\<close>

text \<open>The pinch amount of a fingertip distance (the expression of line 160).\<close>

definition pinchOfDistance :: "real \<Rightarrow> real" where
  "pinchOfDistance distance = min (max ((distance - 0.02) / 0.15) 0) 1"

text \<open>The hand signal computed from the index tip and the thumb tip.\<close>

definition handSignal :: "NormalizedLandmark \<Rightarrow> NormalizedLandmark \<Rightarrow> HandData" where
  "handSignal indexTip thumbTip =
     (let dx = NormalizedLandmark.x indexTip - NormalizedLandmark.x thumbTip;
          dy = NormalizedLandmark.y indexTip - NormalizedLandmark.y thumbTip;
          distance = sqrt (dx * dx + dy * dy);
          pinch = pinchOfDistance distance;
          x = (1 - NormalizedLandmark.x indexTip) * 2 - 1;
          y = - (NormalizedLandmark.y indexTip * 2 - 1)
      in \<lparr>HandData.present = True, x = x, y = y, pinch = pinch\<rparr>)"

text \<open>\<^verbatim>\<open>handResults.handedness[i][0].categoryName\<close>\<close>

definition labelOf :: "HandLandmarkerResult \<Rightarrow> nat \<Rightarrow> string option" where
  "labelOf res i =
     (case item (handedness res) i of
        None \<Rightarrow> None
      | Some cats \<Rightarrow> (case item cats 0 of None \<Rightarrow> None | Some c \<Rightarrow> Some (categoryName c)))"

text \<open>The signal of hand \<open>i\<close>, from \<^verbatim>\<open>landmarks[8]\<close> and \<^verbatim>\<open>landmarks[4]\<close>.\<close>

definition signalOf :: "NormalizedLandmark list list \<Rightarrow> nat \<Rightarrow> HandData option" where
  "signalOf lms i =
     (case item lms i of
        None \<Rightarrow> None
      | Some lm \<Rightarrow>
          (case item lm 8 of
             None \<Rightarrow> None
           | Some indexTip \<Rightarrow>
               (case item lm 4 of
                  None \<Rightarrow> None
                | Some thumbTip \<Rightarrow> Some (handSignal indexTip thumbTip))))"

text \<open>The body of the loop over the detected hands.\<close>

definition handStep ::
  "HandLandmarkerResult \<Rightarrow> NormalizedLandmark list list \<Rightarrow> nat \<Rightarrow> TwoHandsData \<Rightarrow> TwoHandsData option"
where
  "handStep res lms i hs =
     (case labelOf res i of
        None \<Rightarrow> None
      | Some label \<Rightarrow>
          (case signalOf lms i of
             None \<Rightarrow> None
           | Some sg \<Rightarrow>
               Some (if label = ''Left'' then hs\<lparr>left := sg\<rparr> else hs\<lparr>right := sg\<rparr>)))"

fun handLoop ::
  "HandLandmarkerResult \<Rightarrow> NormalizedLandmark list list \<Rightarrow> nat list \<Rightarrow> TwoHandsData \<Rightarrow> TwoHandsData option"
where
  "handLoop res lms [] hs = Some hs"
| "handLoop res lms (i # rest) hs =
     (case handStep res lms i hs of None \<Rightarrow> None | Some hs' \<Rightarrow> handLoop res lms rest hs')"

text \<open>The hands of \<^verbatim>\<open>newData\<close> before the loop: both absent.\<close>

definition newHands :: TwoHandsData where
  "newHands =
     \<lparr>left = \<lparr>HandData.present = False, x = 0, y = 0, pinch = 0\<rparr>,
      right = \<lparr>HandData.present = False, x = 0, y = 0, pinch = 0\<rparr>\<rparr>"

text \<open>``Hand Logic'': the loop runs over the indices of \<^verbatim>\<open>landmarks\<close>, when it is there.\<close>

definition handLogic :: "HandLandmarkerResult \<Rightarrow> TwoHandsData option" where
  "handLogic res =
     (case landmarks res of
        None \<Rightarrow> Some newHands
      | Some lms \<Rightarrow> handLoop res lms [0..<length lms] newHands)"

section \<open>Properties of the spring integrator\<close>

text \<open>
  Claim C1. One call of \<^verbatim>\<open>update()\<close> computes force = (target - value) * stiffness,
  the new velocity is the old velocity * damping + force, the new value is the old value
  + the new velocity, and nothing is clamped: the equations hold for every state.
\<close>

theorem update_formula:
  "velocity (update s) = velocity s * damping s + (target s - value s) * stiffness s \<and>
   value (update s) = value s + velocity (update s)"
  by (simp add: update_def Let_def)

text \<open>
  Claim C9. \<^verbatim>\<open>update()\<close> writes the fields value and velocity only: target, stiffness
  and damping are the same after the call, whatever the state before.
\<close>

theorem update_frame:
  "target (update s) = target s \<and>
   stiffness (update s) = stiffness s \<and>
   damping (update s) = damping s \<and>
   update s = s\<lparr>value := value (update s), velocity := velocity (update s)\<rparr>"
  by (simp add: update_def Let_def)

subsection \<open>Convergence\<close>

lemma updates_Suc_outer: "updates (Suc n) s = update (updates n s)"
  by (induction n arbitrary: s) simp_all

lemma updates_params:
  "target (updates n s) = target s \<and> stiffness (updates n s) = stiffness s \<and>
   damping (updates n s) = damping s"
  by (induction n arbitrary: s) (simp_all add: update_def Let_def)

text \<open>The distance of the value to the target obeys a second-order recurrence.\<close>

lemma error_recurrence:
  "value (updates (Suc (Suc n)) s) - target s =
     (1 + damping s - stiffness s) * (value (updates (Suc n) s) - target s)
     - damping s * (value (updates n s) - target s)"
proof -
  let ?u = "updates n s"
  have p: "target ?u = target s" "stiffness ?u = stiffness s" "damping ?u = damping s"
    using updates_params [of n s] by simp_all
  have "updates (Suc (Suc n)) s = update (update ?u)"
    by (simp only: updates_Suc_outer)
  moreover have "updates (Suc n) s = update ?u"
    by (simp only: updates_Suc_outer)
  ultimately show ?thesis
    using p by (simp add: update_def Let_def algebra_simps)
qed

text \<open>A geometric sequence with ratio in [0, 1) falls below every positive bound.\<close>

lemma geometric_small:
  fixes q C eps :: real
  assumes "0 \<le> q" and "q < 1" and "0 < eps"
  shows "\<exists>N. \<forall>n\<ge>N. C * q ^ n < eps"
proof -
  have "(\<lambda>n. q ^ n) \<longlonglongrightarrow> 0"
    using assms(1,2) by (rule LIMSEQ_realpow_zero)
  then have "(\<lambda>n. C * q ^ n) \<longlonglongrightarrow> 0"
    by (rule tendsto_mult_right_zero)
  then have "eventually (\<lambda>n. C * q ^ n < eps) sequentially"
    using assms(3) by (rule order_tendstoD)
  then show ?thesis
    by (simp add: eventually_sequentially)
qed

lemma cross_term_bound:
  fixes Q u v :: real
  shows "2 * Q * u * v \<le> \<bar>Q\<bar> * (u\<^sup>2 + v\<^sup>2)"
proof -
  have "0 \<le> (\<bar>u\<bar> - \<bar>v\<bar>)\<^sup>2" by simp
  then have uv: "2 * (\<bar>u\<bar> * \<bar>v\<bar>) \<le> u\<^sup>2 + v\<^sup>2"
    by (simp add: power2_diff)
  have "2 * Q * u * v \<le> \<bar>2 * Q * u * v\<bar>" by (rule abs_ge_self)
  also have "\<dots> = \<bar>Q\<bar> * (2 * (\<bar>u\<bar> * \<bar>v\<bar>))" by (simp add: abs_mult)
  also have "\<dots> \<le> \<bar>Q\<bar> * (u\<^sup>2 + v\<^sup>2)"
    using uv by (rule mult_left_mono) simp
  finally show ?thesis .
qed

text \<open>
  A sequence with \<open>f (n + 2) = a * f (n + 1) - b * f n\<close>, \<open>0 < b < 1\<close> and \<open>|a| < 1 + b\<close>
  tends to 0: the quadratic form \<open>W\<close> below loses a fixed fraction of itself in every
  step and bounds the square of \<open>f\<close>.
\<close>

lemma second_order_decay:
  fixes f :: "nat \<Rightarrow> real" and a b :: real
  assumes rec: "\<And>n. f (Suc (Suc n)) = a * f (Suc n) - b * f n"
    and b: "0 < b" "b < 1" and a: "a\<^sup>2 < (1 + b)\<^sup>2"
    and eps: "0 < eps"
  shows "\<exists>N. \<forall>n\<ge>N. \<bar>f n\<bar> < eps"
proof -
  define c where "c = 1 + b"
  define Q where "Q = - (a * b)"
  define G where "G = (1 - b) * (c\<^sup>2 - a\<^sup>2) / 2"
  define P where "P = G + c * b\<^sup>2"
  define M where "M = P + c + \<bar>Q\<bar>"
  define W where "W n = P * (f n)\<^sup>2 + 2 * Q * f n * f (Suc n) + c * (f (Suc n))\<^sup>2" for n
  define S where "S n = (f n)\<^sup>2 + (f (Suc n))\<^sup>2" for n
  have c: "0 < c" using b by (simp add: c_def)
  have ca: "0 < c\<^sup>2 - a\<^sup>2" using a by (simp add: c_def)
  have G: "0 < G" using b ca by (simp add: G_def)
  have P: "0 < P" using G c b by (simp add: P_def add_pos_nonneg)
  have GP: "G \<le> P" using c by (simp add: P_def)
  have M: "0 < M" "P \<le> M" using P c by (simp_all add: M_def)
  have step: "W (Suc n) = W n - G * S n" for n
    unfolding W_def S_def rec P_def G_def Q_def c_def
    by (simp add: power2_eq_square field_simps)
  have bound: "W n \<le> M * S n" for n
  proof -
    have "W n \<le> P * (f n)\<^sup>2 + \<bar>Q\<bar> * S n + c * (f (Suc n))\<^sup>2"
      using cross_term_bound [of Q "f n" "f (Suc n)"] by (simp add: W_def S_def)
    also have "\<dots> \<le> (P + c) * S n + \<bar>Q\<bar> * S n"
    proof -
      have "P * (f n)\<^sup>2 \<le> P * S n"
        using P by (simp add: S_def)
      moreover have "c * (f (Suc n))\<^sup>2 \<le> c * S n"
        using c by (simp add: S_def)
      ultimately show ?thesis by (simp add: algebra_simps)
    qed
    also have "\<dots> = M * S n" by (simp add: M_def algebra_simps)
    finally show ?thesis .
  qed
  define D where "D = c * P - Q\<^sup>2"
  have D_eq: "D = c * G + b\<^sup>2 * (c\<^sup>2 - a\<^sup>2)"
    by (simp add: D_def P_def Q_def power2_eq_square algebra_simps)
  have D: "0 < D"
    unfolding D_eq using c G b ca by (simp add: add_pos_nonneg)
  have complete: "c * W n = (c * f (Suc n) + Q * f n)\<^sup>2 + D * (f n)\<^sup>2" for n
    by (simp add: W_def D_def power2_eq_square algebra_simps)
  have sq: "D * (f n)\<^sup>2 \<le> c * W n" for n
    by (simp add: complete)
  have nonneg: "0 \<le> W n" for n
  proof -
    have "0 \<le> c * W n" using D by (simp add: complete)
    with c show ?thesis by (simp add: zero_le_mult_iff)
  qed
  define rho where "rho = 1 - G / M"
  have rho: "0 \<le> rho" "rho < 1"
    using G M GP by (simp_all add: rho_def)
  have decay: "W (Suc n) \<le> rho * W n" for n
  proof -
    have "W n / M \<le> S n"
      using bound [of n] M(1) by (simp add: field_simps)
    then have "G * (W n / M) \<le> G * S n"
      using G by (intro mult_left_mono) simp_all
    then show ?thesis
      by (simp add: step rho_def algebra_simps)
  qed
  have geo: "W n \<le> W 0 * rho ^ n" for n
  proof (induction n)
    case 0
    then show ?case by simp
  next
    case (Suc n)
    have "W (Suc n) \<le> rho * W n" by (rule decay)
    also have "\<dots> \<le> rho * (W 0 * rho ^ n)"
      using Suc rho(1) by (rule mult_left_mono)
    finally show ?case by (simp add: mult_ac)
  qed
  have small: "(f n)\<^sup>2 \<le> (c / D * W 0) * rho ^ n" for n
  proof -
    have "(f n)\<^sup>2 \<le> c * W n / D"
      using sq [of n] D by (simp add: field_simps)
    also have "\<dots> \<le> c * (W 0 * rho ^ n) / D"
      using geo [of n] c D by (simp add: divide_right_mono)
    finally show ?thesis by (simp add: field_simps)
  qed
  from geometric_small [OF rho, of "eps\<^sup>2" "c / D * W 0"] eps
  obtain N where N: "\<forall>n\<ge>N. (c / D * W 0) * rho ^ n < eps\<^sup>2"
    by auto
  have "\<forall>n\<ge>N. \<bar>f n\<bar> < eps"
  proof (intro allI impI)
    fix n
    assume "N \<le> n"
    with N small [of n] have "(f n)\<^sup>2 < eps\<^sup>2" by fastforce
    then have "\<bar>f n\<bar>\<^sup>2 < eps\<^sup>2" by simp
    then show "\<bar>f n\<bar> < eps"
      using eps by (simp add: power2_less_imp_less)
  qed
  then show ?thesis by blast
qed

text \<open>
  Claim C5, as the code has it. For a fixed target, a damping \<open>d\<close> with \<open>0 < d < 1\<close> and
  a stiffness \<open>k\<close> with \<open>0 < k < 2 + 2 * d\<close>, repeated calls of \<^verbatim>\<open>update()\<close> bring the
  value to the target from any starting value and velocity: for every \<open>eps > 0\<close> there is
  a number of calls from which on the distance of the value to the target stays below
  \<open>eps\<close>.
\<close>

theorem spring_converges:
  assumes "0 < damping s" and "damping s < 1"
    and "0 < stiffness s" and "stiffness s < 2 + 2 * damping s"
  shows "\<forall>eps>0. \<exists>N. \<forall>n\<ge>N. \<bar>value (updates n s) - target s\<bar> < eps"
proof (intro allI impI)
  fix eps :: real
  assume eps: "0 < eps"
  let ?a = "1 + damping s - stiffness s"
  have "\<bar>?a\<bar> < 1 + damping s"
    using assms by (simp add: abs_less_iff)
  then have "\<bar>?a\<bar>\<^sup>2 < (1 + damping s)\<^sup>2"
    by (intro power_strict_mono) simp_all
  then have a: "?a\<^sup>2 < (1 + damping s)\<^sup>2" by simp
  show "\<exists>N. \<forall>n\<ge>N. \<bar>value (updates n s) - target s\<bar> < eps"
    using second_order_decay [of "\<lambda>n. value (updates n s) - target s" ?a "damping s" eps,
        OF error_recurrence assms(1,2) a eps] .
qed

theorem spring_converges_witness:
  "0 < damping (stackHeight springs_init) \<and> damping (stackHeight springs_init) < 1 \<and>
   0 < stiffness (stackHeight springs_init) \<and>
   stiffness (stackHeight springs_init) < 2 + 2 * damping (stackHeight springs_init) \<and>
   (\<exists>N. \<forall>n\<ge>N. \<bar>value (updates n ((stackHeight springs_init)\<lparr>target := 30\<rparr>)) - 30\<bar> < 1 / 100)"
proof -
  let ?s = "(stackHeight springs_init)\<lparr>target := 30\<rparr>"
  have h: "0 < damping ?s" "damping ?s < 1" "0 < stiffness ?s" "stiffness ?s < 2 + 2 * damping ?s"
    by (simp_all add: springs_init_def SpringValue_new_def)
  have e: "(0::real) < 1 / 100" by simp
  from spring_converges [OF h, rule_format, OF e]
  have "\<exists>N. \<forall>n\<ge>N. \<bar>value (updates n ?s) - target ?s\<bar> < 1 / 100" .
  then have "\<exists>N. \<forall>n\<ge>N. \<bar>value (updates n ?s) - 30\<bar> < 1 / 100" by simp
  with h show ?thesis by simp
qed

text \<open>
  The claim as the spec states it, for every damping in (0, 1) with no condition on the
  stiffness, fails. With stiffness 3 and damping 0.5 the state (value 1, velocity 2,
  target 0) alternates with (value -1, velocity -2): the distance to the target is 1
  after every call. With stiffness 0 a spring built at 0 and given the target 1 never
  moves.
\<close>

lemma stiff_cycle:
  "updates n \<lparr>value = 1, target = 0, velocity = 2, stiffness = 3, damping = 1 / 2\<rparr> =
     (if even n then \<lparr>value = 1, target = 0, velocity = 2, stiffness = 3, damping = 1 / 2\<rparr>
      else \<lparr>value = - 1, target = 0, velocity = - 2, stiffness = 3, damping = 1 / 2\<rparr>)"
proof (induction n)
  case 0
  then show ?case by simp
next
  case (Suc n)
  show ?case
    unfolding updates_Suc_outer Suc.IH by (simp add: update_def Let_def)
qed

lemma slack_rest:
  "updates n \<lparr>value = 0, target = 1, velocity = 0, stiffness = 0, damping = 1 / 2\<rparr> =
     \<lparr>value = 0, target = 1, velocity = 0, stiffness = 0, damping = 1 / 2\<rparr>"
proof (induction n)
  case 0
  then show ?case by simp
next
  case (Suc n)
  show ?case
    unfolding updates_Suc_outer Suc.IH by (simp add: update_def Let_def)
qed

theorem spring_convergence_counterexample:
  "(\<forall>n. \<bar>value (updates n \<lparr>value = 1, target = 0, velocity = 2, stiffness = 3, damping = 1 / 2\<rparr>) - 0\<bar> = 1) \<and>
   (\<forall>n. \<bar>value (updates n ((SpringValue_new 0 0 (1 / 2))\<lparr>target := 1\<rparr>)) - 1\<bar> = 1) \<and>
   \<not> (\<forall>s eps. 0 < damping s \<and> damping s < 1 \<and> 0 < eps \<longrightarrow>
          (\<exists>n. \<bar>value (updates n s) - target s\<bar> < eps))"
proof -
  let ?s3 = "\<lparr>value = 1, target = 0, velocity = 2, stiffness = 3, damping = 1 / 2 :: real\<rparr>"
  have c3: "\<bar>value (updates n ?s3) - 0\<bar> = 1" for n
    by (simp add: stiff_cycle)
  have c0: "\<bar>value (updates n ((SpringValue_new 0 0 (1 / 2))\<lparr>target := 1\<rparr>)) - 1\<bar> = 1" for n
    by (simp add: SpringValue_new_def slack_rest)
  have "\<not> (\<forall>s eps. 0 < damping s \<and> damping s < 1 \<and> 0 < eps \<longrightarrow>
          (\<exists>n. \<bar>value (updates n s) - target s\<bar> < eps))"
  proof
    assume "\<forall>s eps. 0 < damping s \<and> damping s < 1 \<and> 0 < eps \<longrightarrow>
          (\<exists>n. \<bar>value (updates n s) - target s\<bar> < eps)"
    then have "0 < damping ?s3 \<and> damping ?s3 < 1 \<and> (0::real) < 1 \<longrightarrow>
          (\<exists>n. \<bar>value (updates n ?s3) - target ?s3\<bar> < 1)"
      by blast
    then obtain n where "\<bar>value (updates n ?s3) - target ?s3\<bar> < 1" by auto
    then show False by (simp add: stiff_cycle split: if_splits)
  qed
  with c3 c0 show ?thesis by blast
qed

section \<open>Properties of the frame callback of ColorSlices\<close>

text \<open>
  Claim C2. The mood is chosen by a priority cascade, top to bottom: with the face
  present, smile > 0.4 gives JOY whatever the other scores are; otherwise mouthOpen > 0.2
  gives SURPRISE; otherwise browDown > 0.3 gives MOODY; otherwise DEFAULT. An absent face
  gives DEFAULT whatever its scores. With smile = mouthOpen = browDown = 0.5 the result is
  JOY.
\<close>

theorem nextPalette_cascade:
  "(\<not> FaceData.present f \<longrightarrow> fst (nextPalette f) = DEFAULT) \<and>
   (FaceData.present f \<and> smile f > 0.4 \<longrightarrow> fst (nextPalette f) = JOY) \<and>
   (FaceData.present f \<and> \<not> smile f > 0.4 \<and> mouthOpen f > 0.2 \<longrightarrow>
      fst (nextPalette f) = SURPRISE) \<and>
   (FaceData.present f \<and> \<not> smile f > 0.4 \<and> \<not> mouthOpen f > 0.2 \<and> browDown f > 0.3 \<longrightarrow>
      fst (nextPalette f) = MOODY) \<and>
   (FaceData.present f \<and> \<not> smile f > 0.4 \<and> \<not> mouthOpen f > 0.2 \<and> \<not> browDown f > 0.3 \<longrightarrow>
      fst (nextPalette f) = DEFAULT) \<and>
   (FaceData.present f \<and> smile f = 0.5 \<and> mouthOpen f = 0.5 \<and> browDown f = 0.5 \<longrightarrow>
      fst (nextPalette f) = JOY)"
  by (simp add: nextPalette_def)

theorem nextPalette_cascade_witness:
  "fst (nextPalette \<lparr>present = True, smile = 0.5, mouthOpen = 0.5, browDown = 0.5\<rparr>) = JOY \<and>
   fst (nextPalette \<lparr>present = True, smile = 0.1, mouthOpen = 0.5, browDown = 0.5\<rparr>) = SURPRISE \<and>
   fst (nextPalette \<lparr>present = True, smile = 0.1, mouthOpen = 0.1, browDown = 0.5\<rparr>) = MOODY \<and>
   fst (nextPalette \<lparr>present = True, smile = 0.1, mouthOpen = 0.1, browDown = 0.1\<rparr>) = DEFAULT \<and>
   fst (nextPalette \<lparr>present = False, smile = 0.5, mouthOpen = 0.5, browDown = 0.5\<rparr>) = DEFAULT"
  using nextPalette_cascade [of "\<lparr>present = True, smile = 0.5, mouthOpen = 0.5, browDown = 0.5\<rparr>"]
    nextPalette_cascade [of "\<lparr>present = True, smile = 0.1, mouthOpen = 0.5, browDown = 0.5\<rparr>"]
    nextPalette_cascade [of "\<lparr>present = True, smile = 0.1, mouthOpen = 0.1, browDown = 0.5\<rparr>"]
    nextPalette_cascade [of "\<lparr>present = True, smile = 0.1, mouthOpen = 0.1, browDown = 0.1\<rparr>"]
    nextPalette_cascade [of "\<lparr>present = False, smile = 0.5, mouthOpen = 0.5, browDown = 0.5\<rparr>"]
  by simp

text \<open>
  Claim C7. The spring targets of a frame: with the left hand present the stack height
  target is base * max(0.5, 1.5 + handY) and the twist target handX * 4 pi, otherwise base
  and 0; with the right hand present the radius target is 1 + handY * 0.8 and the chaos
  target (handX + 1) * 0.5, otherwise 1.0 and 0. These are the targets the four springs
  hold after the frame. The left hand at (0, 1) with the right hand absent gives
  base * 2.5, twist 0 and radius 1.0.
\<close>

theorem calcTargets_mapping:
  "targetHeight (calcTargets h) =
     (if HandData.present (left h) then CONFIG_stackHeight * max 0.5 (1.5 + y (left h))
      else CONFIG_stackHeight) \<and>
   targetTwist (calcTargets h) = (if HandData.present (left h) then x (left h) * (4 * pi) else 0) \<and>
   targetRadius (calcTargets h) = (if HandData.present (right h) then 1 + y (right h) * 0.8 else 1.0) \<and>
   targetChaos (calcTargets h) = (if HandData.present (right h) then (x (right h) + 1) * 0.5 else 0) \<and>
   target (stackHeight (frameSprings m a h sp)) = targetHeight (calcTargets h) \<and>
   target (twist (frameSprings m a h sp)) = targetTwist (calcTargets h) \<and>
   target (radiusScale (frameSprings m a h sp)) = targetRadius (calcTargets h) \<and>
   target (chaos (frameSprings m a h sp)) = targetChaos (calcTargets h) \<and>
   (HandData.present (left h) \<and> x (left h) = 0 \<and> y (left h) = 1 \<and> \<not> HandData.present (right h) \<longrightarrow>
      targetHeight (calcTargets h) = CONFIG_stackHeight * 2.5 \<and>
      targetTwist (calcTargets h) = 0 \<and> targetRadius (calcTargets h) = 1.0)"
  by (simp add: calcTargets_def frameSprings_def updateAll_def setTargets_def update_def Let_def)

theorem calcTargets_mapping_witness:
  "targetHeight (calcTargets \<lparr>left = \<lparr>HandData.present = True, x = 0, y = 1, pinch = 0\<rparr>,
                              right = \<lparr>HandData.present = False, x = 0, y = 0, pinch = 0\<rparr>\<rparr>) = 30 \<and>
   targetTwist (calcTargets \<lparr>left = \<lparr>HandData.present = True, x = 0, y = 1, pinch = 0\<rparr>,
                             right = \<lparr>HandData.present = False, x = 0, y = 0, pinch = 0\<rparr>\<rparr>) = 0 \<and>
   targetRadius (calcTargets \<lparr>left = \<lparr>HandData.present = True, x = 0, y = 1, pinch = 0\<rparr>,
                              right = \<lparr>HandData.present = False, x = 0, y = 0, pinch = 0\<rparr>\<rparr>) = 1"
  using calcTargets_mapping [of "\<lparr>left = \<lparr>HandData.present = True, x = 0, y = 1, pinch = 0\<rparr>,
                                  right = \<lparr>HandData.present = False, x = 0, y = 0, pinch = 0\<rparr>\<rparr>"]
  by (simp add: CONFIG_stackHeight_def)

subsection \<open>The colour loop\<close>

lemma PALETTES_length: "length (PALETTES p) = 5"
  by (cases p) simp_all

lemma colorLoop_snoc:
  "colorLoop parse tp (js @ [i]) cur =
     (case colorLoop parse tp js cur of None \<Rightarrow> None | Some m \<Rightarrow> colorStep parse tp i m)"
  by (induction js arbitrary: cur) (auto split: option.splits)

lemma slotCount_Suc:
  "slotCount (Suc n) j = (if n mod 5 = j then Suc (slotCount n j) else slotCount n j)"
  by (simp add: slotCount_def)

lemma colorLoop_slots:
  assumes "length cur = 5"
  shows "\<exists>out. colorLoop parse tp [0..<n] cur = Some out \<and> length out = 5 \<and>
           (\<forall>j<5. out ! j = lerps (slotCount n j) (cur ! j) (parse (PALETTES tp ! j)))"
proof (induction n)
  case 0
  then show ?case by (simp add: slotCount_def assms)
next
  case (Suc n)
  then obtain m where m: "colorLoop parse tp [0..<n] cur = Some m" and len: "length m = 5"
    and slots: "\<forall>j<5. m ! j = lerps (slotCount n j) (cur ! j) (parse (PALETTES tp ! j))"
    by blast
  let ?k = "n mod 5"
  let ?out = "m[?k := Color_lerp (m ! ?k) (parse (PALETTES tp ! ?k)) lerpSpeed]"
  have k: "?k < 5" by simp
  have step: "colorStep parse tp n m = Some ?out"
    using len k by (simp add: colorStep_def item_def Let_def)
  have run: "colorLoop parse tp [0..<Suc n] cur = Some ?out"
    using m step by (simp add: colorLoop_snoc)
  have "\<forall>j<5. ?out ! j = lerps (slotCount (Suc n) j) (cur ! j) (parse (PALETTES tp ! j))"
  proof (intro allI impI)
    fix j :: nat
    assume j: "j < 5"
    show "?out ! j = lerps (slotCount (Suc n) j) (cur ! j) (parse (PALETTES tp ! j))"
    proof (cases "j = ?k")
      case True
      then show ?thesis using len j slots by (simp add: slotCount_Suc)
    next
      case False
      then show ?thesis using len j slots by (auto simp add: slotCount_Suc)
    qed
  qed
  with run len show ?case by simp
qed

lemma lerp_step_closed:
  fixes v t c q :: real
  assumes "v = t + (c - t) * q"
  shows "v + (t - v) * 0.15 = t + (c - t) * (0.85 * q)"
  unfolding assms by (simp add: field_simps)

lemma lerps_channels:
  "r (lerps k c t) = r t + (r c - r t) * 0.85 ^ k \<and>
   g (lerps k c t) = g t + (g c - g t) * 0.85 ^ k \<and>
   b (lerps k c t) = b t + (b c - b t) * 0.85 ^ k"
proof (induction k)
  case 0
  then show ?case by simp
next
  case (Suc k)
  then show ?case
    by (simp add: Color_lerp_def lerpSpeed_def lerp_step_closed del: times_divide_eq_left)
qed

lemma slotCount_mult5: "j < 5 \<Longrightarrow> slotCount (5 * q) j = q"
proof (induction q)
  case 0
  then show ?case by (simp add: slotCount_def)
next
  case (Suc q)
  have e: "5 * Suc q = Suc (Suc (Suc (Suc (Suc (5 * q)))))" by simp
  have m: "(5 * q) mod 5 = 0" "Suc (5 * q) mod 5 = 1" "Suc (Suc (5 * q)) mod 5 = 2"
    "Suc (Suc (Suc (5 * q))) mod 5 = 3" "Suc (Suc (Suc (Suc (5 * q)))) mod 5 = 4"
    by presburger+
  from Suc show ?case
    unfolding e slotCount_Suc m by auto
qed

lemma slotCount_60: "j < 5 \<Longrightarrow> slotCount 60 j = 12"
  using slotCount_mult5 [of j 12] by simp

lemma slotCount_5: "j < 5 \<Longrightarrow> slotCount 5 j = 1"
  using slotCount_mult5 [of j 1] by simp

text \<open>The number of instances that use a slot, in closed form.\<close>

lemma slotCount_step_closed:
  fixes n j :: nat
  assumes j: "j < 5"
  shows "(Suc n + 4 - j) div 5 = (if n mod 5 = j then Suc ((n + 4 - j) div 5) else (n + 4 - j) div 5)"
proof -
  from j consider "j = 0" | "j = 1" | "j = 2" | "j = 3" | "j = 4" by linarith
  then show ?thesis
  proof cases
    case 1 then show ?thesis by simp presburger
  next
    case 2 then show ?thesis by simp presburger
  next
    case 3 then show ?thesis by simp presburger
  next
    case 4 then show ?thesis by simp presburger
  next
    case 5 then show ?thesis by simp presburger
  qed
qed

lemma slotCount_closed: "j < 5 \<Longrightarrow> slotCount n j = (n + 4 - j) div 5"
proof (induction n)
  case 0
  then show ?case by (simp add: slotCount_def)
next
  case (Suc n)
  with slotCount_step_closed [of j n] show ?case by (simp add: slotCount_Suc)
qed

lemma slotCount_all_one: "(\<forall>j<5. slotCount n j = 1) \<longleftrightarrow> n = 5"
proof
  assume a: "\<forall>j<5. slotCount n j = 1"
  then have "slotCount n 0 = 1" "slotCount n 4 = 1" by simp_all
  then have "(n + 4) div 5 = 1" "n div 5 = 1" by (simp_all add: slotCount_closed)
  then show "n = 5" by presburger
next
  assume "n = 5"
  then show "\<forall>j<5. slotCount n j = 1" by (simp add: slotCount_5)
qed

text \<open>
  Claim C3, as the code has it. With the mesh mounted and a current palette of 5 colours,
  the lerp at rate 0.15 sits in the loop over the instances, and instance \<open>i\<close> lerps slot
  \<open>i mod 5\<close> towards the target colour of that slot, component-wise on the channels. In
  one frame a slot \<open>j\<close> is lerped once for every instance that uses it, \<open>k\<close> times in all,
  where \<open>k = slotCount sliceCount j\<close> is the number of instances \<open>i < sliceCount\<close> with
  \<open>i mod 5 = j\<close>, that is \<open>(sliceCount + 4 - j) div 5\<close>. After the frame a channel \<open>c\<close> with
  target \<open>t\<close> is \<open>t + (c - t) * 0.85 ^ k\<close>. With the configured 60 instances every slot is
  lerped 12 times; every slot is lerped exactly once if and only if there are 5
  instances.
\<close>

theorem palette_blend_per_instance:
  assumes "length cur = 5"
  shows "\<exists>out. blendFrame True parse tp sliceCount cur = Some out \<and> length out = 5 \<and>
           (\<forall>j<5. out ! j = lerps (slotCount sliceCount j) (cur ! j) (parse (PALETTES tp ! j)) \<and>
              r (out ! j) = r (parse (PALETTES tp ! j)) +
                 (r (cur ! j) - r (parse (PALETTES tp ! j))) * 0.85 ^ slotCount sliceCount j \<and>
              g (out ! j) = g (parse (PALETTES tp ! j)) +
                 (g (cur ! j) - g (parse (PALETTES tp ! j))) * 0.85 ^ slotCount sliceCount j \<and>
              b (out ! j) = b (parse (PALETTES tp ! j)) +
                 (b (cur ! j) - b (parse (PALETTES tp ! j))) * 0.85 ^ slotCount sliceCount j \<and>
              slotCount sliceCount j = (sliceCount + 4 - j) div 5 \<and>
              slotCount CONFIG_sliceCount j = 12 \<and> slotCount 5 j = 1) \<and>
           ((\<forall>j<5. slotCount sliceCount j = 1) \<longleftrightarrow> sliceCount = 5)"
proof -
  from colorLoop_slots [OF assms, of parse tp sliceCount]
  obtain out where run: "colorLoop parse tp [0..<sliceCount] cur = Some out"
    and len: "length out = 5"
    and slots: "\<forall>j<5. out ! j = lerps (slotCount sliceCount j) (cur ! j) (parse (PALETTES tp ! j))"
    by blast
  have "blendFrame True parse tp sliceCount cur = Some out"
    using run by (simp add: blendFrame_def)
  moreover have "\<forall>j<5. out ! j = lerps (slotCount sliceCount j) (cur ! j) (parse (PALETTES tp ! j)) \<and>
              r (out ! j) = r (parse (PALETTES tp ! j)) +
                 (r (cur ! j) - r (parse (PALETTES tp ! j))) * 0.85 ^ slotCount sliceCount j \<and>
              g (out ! j) = g (parse (PALETTES tp ! j)) +
                 (g (cur ! j) - g (parse (PALETTES tp ! j))) * 0.85 ^ slotCount sliceCount j \<and>
              b (out ! j) = b (parse (PALETTES tp ! j)) +
                 (b (cur ! j) - b (parse (PALETTES tp ! j))) * 0.85 ^ slotCount sliceCount j \<and>
              slotCount sliceCount j = (sliceCount + 4 - j) div 5 \<and>
              slotCount CONFIG_sliceCount j = 12 \<and> slotCount 5 j = 1"
    using slots lerps_channels
    by (simp add: slotCount_60 slotCount_5 CONFIG_sliceCount_def slotCount_closed [symmetric])
  moreover have "(\<forall>j<5. slotCount sliceCount j = 1) \<longleftrightarrow> sliceCount = 5"
    by (rule slotCount_all_one)
  ultimately show ?thesis using len by blast
qed

theorem palette_blend_per_instance_witness:
  "\<exists>out. blendFrame True (\<lambda>h. \<lparr>r = 1, g = 1, b = 1\<rparr>) JOY 60 (replicate 5 \<lparr>r = 0, g = 0, b = 0\<rparr>) = Some out \<and>
      length out = 5 \<and> r (out ! 0) = 1 - 0.85 ^ 12"
proof -
  have len: "length (replicate 5 \<lparr>r = 0, g = 0, b = 0 :: real\<rparr>) = 5" by simp
  from palette_blend_per_instance [OF len, of "\<lambda>h. \<lparr>r = 1, g = 1, b = 1\<rparr>" JOY 60]
  obtain out where o: "blendFrame True (\<lambda>h. \<lparr>r = 1, g = 1, b = 1\<rparr>) JOY 60 (replicate 5 \<lparr>r = 0, g = 0, b = 0\<rparr>) = Some out"
    "length out = 5"
    "\<forall>j<5. r (out ! j) = r \<lparr>r = 1, g = 1, b = 1 :: real\<rparr> +
                 (r (replicate 5 \<lparr>r = 0, g = 0, b = 0 :: real\<rparr> ! j) - r \<lparr>r = 1, g = 1, b = 1 :: real\<rparr>) * 0.85 ^ slotCount 60 j \<and>
       slotCount CONFIG_sliceCount j = 12"
    by blast
  from o(3) have "r (out ! 0) = 1 - 0.85 ^ 12"
    by (simp add: CONFIG_sliceCount_def)
  with o(1,2) show ?thesis by blast
qed

text \<open>
  The claim as the spec states it (one lerp per slot and frame, so that a channel becomes
  \<open>c + (t - c) * 0.15\<close> whatever the instance count) fails for the configured 60 instances:
  from black towards white the red channel of slot 0 is \<open>1 - 0.85 ^ 12\<close> after one frame,
  not 0.15; with 5 instances it is 0.15.
\<close>

theorem palette_blend_counterexample:
  "blendFrame True (\<lambda>h. \<lparr>r = 1, g = 1, b = 1\<rparr>) JOY CONFIG_sliceCount (replicate 5 \<lparr>r = 0, g = 0, b = 0\<rparr>) \<noteq> None \<and>
   r (the (blendFrame True (\<lambda>h. \<lparr>r = 1, g = 1, b = 1\<rparr>) JOY CONFIG_sliceCount (replicate 5 \<lparr>r = 0, g = 0, b = 0\<rparr>)) ! 0)
     = 1 - (17 / 20) ^ 12 \<and>
   r (the (blendFrame True (\<lambda>h. \<lparr>r = 1, g = 1, b = 1\<rparr>) JOY CONFIG_sliceCount (replicate 5 \<lparr>r = 0, g = 0, b = 0\<rparr>)) ! 0)
     \<noteq> 0 + (1 - 0) * 0.15 \<and>
   r (the (blendFrame True (\<lambda>h. \<lparr>r = 1, g = 1, b = 1\<rparr>) JOY 5 (replicate 5 \<lparr>r = 0, g = 0, b = 0\<rparr>)) ! 0)
     = 0 + (1 - 0) * 0.15"
proof -
  let ?W = "\<lambda>h::string. \<lparr>r = 1, g = 1, b = 1 :: real\<rparr>"
  let ?B = "replicate 5 \<lparr>r = 0, g = 0, b = 0 :: real\<rparr>"
  have len: "length ?B = 5" by simp
  from colorLoop_slots [OF len, of ?W JOY 60]
  obtain out where run: "colorLoop ?W JOY [0..<60] ?B = Some out"
    and slots: "\<forall>j<5. out ! j = lerps (slotCount 60 j) (?B ! j) (?W (PALETTES JOY ! j))"
    by blast
  from slots have "out ! 0 = lerps 12 \<lparr>r = 0, g = 0, b = 0\<rparr> \<lparr>r = 1, g = 1, b = 1\<rparr>"
    by (simp add: slotCount_60)
  then have r60: "r (out ! 0) = 1 - (17 / 20) ^ 12"
    using lerps_channels [of 12 "\<lparr>r = 0, g = 0, b = 0\<rparr>" "\<lparr>r = 1, g = 1, b = 1\<rparr>"] by simp
  from colorLoop_slots [OF len, of ?W JOY 5]
  obtain out5 where run5: "colorLoop ?W JOY [0..<5] ?B = Some out5"
    and slots5: "\<forall>j<5. out5 ! j = lerps (slotCount 5 j) (?B ! j) (?W (PALETTES JOY ! j))"
    by blast
  from slots5 have "out5 ! 0 = lerps 1 \<lparr>r = 0, g = 0, b = 0\<rparr> \<lparr>r = 1, g = 1, b = 1\<rparr>"
    by (simp add: slotCount_5)
  then have r5: "r (out5 ! 0) = 15 / 100"
    by (simp add: Color_lerp_def lerpSpeed_def)
  have ne: "(1 - (17 / 20) ^ 12 :: real) \<noteq> 0 + (1 - 0) * 0.15"
    by (simp add: power_divide)
  show ?thesis
    using run run5 r60 r5 ne by (simp add: blendFrame_def CONFIG_sliceCount_def)
qed

section \<open>Properties of hand extraction\<close>



subsection \<open>The loop over the detected hands\<close>

lemma handLoop_snoc:
  "handLoop res lms (js @ [i]) hs =
     (case handLoop res lms js hs of None \<Rightarrow> None | Some m \<Rightarrow> handStep res lms i m)"
  by (induction js arbitrary: hs) (auto split: option.splits)

lemma handLoop_upt_Suc:
  "handLoop res lms [0..<Suc n] hs = Some out \<longleftrightarrow>
     (\<exists>m. handLoop res lms [0..<n] hs = Some m \<and> handStep res lms n m = Some out)"
  by (auto simp: handLoop_snoc split: option.splits)

lemma signalOf_present: "signalOf lms i = Some sg \<Longrightarrow> HandData.present sg"
  by (auto simp: signalOf_def handSignal_def Let_def split: option.splits)

lemma handStep_cases:
  assumes "handStep res lms i m = Some out"
  obtains l sg where "labelOf res i = Some l" and "signalOf lms i = Some sg"
    and "out = (if l = ''Left'' then m\<lparr>left := sg\<rparr> else m\<lparr>right := sg\<rparr>)"
  using assms by (auto simp: handStep_def split: option.splits)

lemma handLoop_right_present:
  "handLoop res lms [0..<n] hs = Some out \<Longrightarrow> i < n \<Longrightarrow> labelOf res i = Some l \<Longrightarrow>
   l \<noteq> ''Left'' \<Longrightarrow> HandData.present (right out)"
proof (induction n arbitrary: out)
  case 0
  then show ?case by simp
next
  case (Suc n)
  from Suc.prems(1) obtain m where m: "handLoop res lms [0..<n] hs = Some m"
    and st: "handStep res lms n m = Some out"
    unfolding handLoop_upt_Suc by blast
  from st obtain l' sg where l': "labelOf res n = Some l'" and sg: "signalOf lms n = Some sg"
    and out: "out = (if l' = ''Left'' then m\<lparr>left := sg\<rparr> else m\<lparr>right := sg\<rparr>)"
    by (rule handStep_cases)
  show ?case
  proof (cases "l' = ''Left''")
    case True
    with l' Suc.prems have "i < n" by (cases "i = n") auto
    then have "HandData.present (right m)" using Suc.IH [OF m] Suc.prems by blast
    with True out show ?thesis by simp
  next
    case False
    with out sg show ?thesis by (simp add: signalOf_present)
  qed
qed

lemma handLoop_right_last:
  "handLoop res lms [0..<n] hs = Some out \<Longrightarrow> i < n \<Longrightarrow> labelOf res i = Some l \<Longrightarrow>
   l \<noteq> ''Left'' \<Longrightarrow> (\<forall>j. i < j \<and> j < n \<longrightarrow> labelOf res j = Some ''Left'') \<Longrightarrow>
   signalOf lms i = Some (right out)"
proof (induction n arbitrary: out)
  case 0
  then show ?case by simp
next
  case (Suc n)
  from Suc.prems(1) obtain m where m: "handLoop res lms [0..<n] hs = Some m"
    and st: "handStep res lms n m = Some out"
    unfolding handLoop_upt_Suc by blast
  from st obtain l' sg where l': "labelOf res n = Some l'" and sg: "signalOf lms n = Some sg"
    and out: "out = (if l' = ''Left'' then m\<lparr>left := sg\<rparr> else m\<lparr>right := sg\<rparr>)"
    by (rule handStep_cases)
  show ?case
  proof (cases "i = n")
    case True
    with l' sg out Suc.prems show ?thesis by simp
  next
    case False
    with Suc.prems have lt: "i < n" by simp
    with Suc.prems l' have left: "l' = ''Left''" by auto
    have "signalOf lms i = Some (right m)"
      using Suc.IH [OF m lt] Suc.prems by auto
    with left out show ?thesis by simp
  qed
qed

lemma handLoop_left_last:
  "handLoop res lms [0..<n] hs = Some out \<Longrightarrow> i < n \<Longrightarrow> labelOf res i = Some ''Left'' \<Longrightarrow>
   (\<forall>j. i < j \<and> j < n \<longrightarrow> labelOf res j \<noteq> Some ''Left'') \<Longrightarrow>
   signalOf lms i = Some (left out)"
proof (induction n arbitrary: out)
  case 0
  then show ?case by simp
next
  case (Suc n)
  from Suc.prems(1) obtain m where m: "handLoop res lms [0..<n] hs = Some m"
    and st: "handStep res lms n m = Some out"
    unfolding handLoop_upt_Suc by blast
  from st obtain l' sg where l': "labelOf res n = Some l'" and sg: "signalOf lms n = Some sg"
    and out: "out = (if l' = ''Left'' then m\<lparr>left := sg\<rparr> else m\<lparr>right := sg\<rparr>)"
    by (rule handStep_cases)
  show ?case
  proof (cases "i = n")
    case True
    with l' sg out Suc.prems show ?thesis by simp
  next
    case False
    with Suc.prems have lt: "i < n" by simp
    with Suc.prems l' have nl: "l' \<noteq> ''Left''" by auto
    have "signalOf lms i = Some (left m)"
      using Suc.IH [OF m lt] Suc.prems by auto
    with nl out show ?thesis by simp
  qed
qed

text \<open>A well-formed detector result (nine landmarks or more and a category for every hand) never makes the loop fail.\<close>

lemma handLoop_total:
  assumes "n \<le> length lms" and "length lms \<le> length (handedness res)"
    and "\<forall>i<length lms. 9 \<le> length (lms ! i) \<and> handedness res ! i \<noteq> []"
  shows "\<exists>out. handLoop res lms [0..<n] hs = Some out"
  using assms(1)
proof (induction n)
  case 0
  then show ?case by simp
next
  case (Suc n)
  then obtain m where m: "handLoop res lms [0..<n] hs = Some m" by auto
  from Suc.prems assms(2,3) have "n < length lms" "n < length (handedness res)"
    "9 \<le> length (lms ! n)" "handedness res ! n \<noteq> []" by auto
  then have "\<exists>out. handStep res lms n m = Some out"
    by (auto simp: handStep_def labelOf_def signalOf_def item_def split: option.splits)
  with m show ?case unfolding handLoop_upt_Suc by blast
qed

lemma handLoop_defined:
  "handLoop res lms [0..<n] hs = Some out \<Longrightarrow> i < n \<Longrightarrow>
   (\<exists>l. labelOf res i = Some l) \<and> (\<exists>sg. signalOf lms i = Some sg)"
proof (induction n arbitrary: out)
  case 0
  then show ?case by simp
next
  case (Suc n)
  from Suc.prems(1) obtain m where m: "handLoop res lms [0..<n] hs = Some m"
    and st: "handStep res lms n m = Some out"
    unfolding handLoop_upt_Suc by blast
  show ?case
  proof (cases "i = n")
    case True
    with st show ?thesis by (auto elim: handStep_cases)
  next
    case False
    with Suc.prems have "i < n" by simp
    with Suc.IH [OF m] show ?thesis by blast
  qed
qed

text \<open>So the tracker publishes hands for every well-formed detector result.\<close>

lemma handLogic_total:
  assumes "landmarks res = Some lms" and "length lms \<le> length (handedness res)"
    and "\<forall>i<length lms. 9 \<le> length (lms ! i) \<and> handedness res ! i \<noteq> []"
  shows "\<exists>out. handLogic res = Some out"
  using handLoop_total [OF order_refl assms(2,3), of newHands] assms(1)
  by (simp add: handLogic_def)

text \<open>
  Claim C10. For a detector result with nine landmarks or more and a category for every
  hand, the loop does not throw and the tracker publishes the hands; and whenever it
  publishes, every detected hand has a label and a signal. A detected hand whose label is
  any string other than ''Left'' goes to the right slot, with present = true: the step
  writes its signal there whatever the label is, and the right hand published after the
  loop is present. When several hands go to one slot the last one wins: each slot holds
  the signal of the last hand that maps to it.
\<close>

theorem handLogic_label_slots:
  assumes "landmarks res = Some lms"
  shows "(length lms \<le> length (handedness res) \<and>
          (\<forall>k<length lms. 9 \<le> length (lms ! k) \<and> handedness res ! k \<noteq> []) \<longrightarrow>
            (\<exists>res'. handLogic res = Some res')) \<and>
         (handLogic res = Some out \<and> i < length lms \<longrightarrow>
            (\<exists>l. labelOf res i = Some l) \<and> (\<exists>sg. signalOf lms i = Some sg)) \<and>
         (handLogic res = Some out \<and> i < length lms \<and> labelOf res i = Some l \<longrightarrow>
            (l \<noteq> ''Left'' \<longrightarrow>
               HandData.present (right out) \<and>
               (\<forall>hs. handStep res lms i hs = map_option (\<lambda>sg. hs\<lparr>right := sg\<rparr>) (signalOf lms i))) \<and>
            (l \<noteq> ''Left'' \<and> (\<forall>j. i < j \<and> j < length lms \<longrightarrow> labelOf res j = Some ''Left'') \<longrightarrow>
               signalOf lms i = Some (right out)) \<and>
            (l = ''Left'' \<and> (\<forall>j. i < j \<and> j < length lms \<longrightarrow> labelOf res j \<noteq> Some ''Left'') \<longrightarrow>
               signalOf lms i = Some (left out)))"
proof -
  have total: "length lms \<le> length (handedness res) \<and>
          (\<forall>k<length lms. 9 \<le> length (lms ! k) \<and> handedness res ! k \<noteq> []) \<longrightarrow>
            (\<exists>res'. handLogic res = Some res')"
    using handLogic_total [OF assms] by blast
  have defined: "(\<exists>l. labelOf res i = Some l) \<and> (\<exists>sg. signalOf lms i = Some sg)"
    if run: "handLogic res = Some out" and i: "i < length lms"
  proof -
    from assms run have loop: "handLoop res lms [0..<length lms] newHands = Some out"
      by (simp add: handLogic_def)
    show ?thesis using handLoop_defined [OF loop i] .
  qed
  have slots: "(l \<noteq> ''Left'' \<longrightarrow>
               HandData.present (right out) \<and>
               (\<forall>hs. handStep res lms i hs = map_option (\<lambda>sg. hs\<lparr>right := sg\<rparr>) (signalOf lms i))) \<and>
            (l \<noteq> ''Left'' \<and> (\<forall>j. i < j \<and> j < length lms \<longrightarrow> labelOf res j = Some ''Left'') \<longrightarrow>
               signalOf lms i = Some (right out)) \<and>
            (l = ''Left'' \<and> (\<forall>j. i < j \<and> j < length lms \<longrightarrow> labelOf res j \<noteq> Some ''Left'') \<longrightarrow>
               signalOf lms i = Some (left out))"
    if run: "handLogic res = Some out" and i: "i < length lms" and l: "labelOf res i = Some l"
  proof -
    from assms run have loop: "handLoop res lms [0..<length lms] newHands = Some out"
      by (simp add: handLogic_def)
    have "l \<noteq> ''Left'' \<Longrightarrow> HandData.present (right out)"
      using handLoop_right_present [OF loop i l] .
    moreover have "l \<noteq> ''Left'' \<Longrightarrow>
        handStep res lms i hs = map_option (\<lambda>sg. hs\<lparr>right := sg\<rparr>) (signalOf lms i)" for hs
      using l by (simp add: handStep_def split: option.splits)
    moreover have "l \<noteq> ''Left'' \<Longrightarrow>
        (\<forall>j. i < j \<and> j < length lms \<longrightarrow> labelOf res j = Some ''Left'') \<Longrightarrow>
        signalOf lms i = Some (right out)"
      using handLoop_right_last [OF loop i l] by blast
    moreover have "l = ''Left'' \<Longrightarrow>
        (\<forall>j. i < j \<and> j < length lms \<longrightarrow> labelOf res j \<noteq> Some ''Left'') \<Longrightarrow>
        signalOf lms i = Some (left out)"
      using handLoop_left_last [OF loop i] l by blast
    ultimately show ?thesis by blast
  qed
  from total defined slots show ?thesis by blast
qed


theorem handLogic_label_slots_witness:
  "handLogic \<lparr>landmarks = Some [replicate 9 \<lparr>NormalizedLandmark.x = 1/2, y = 1/2\<rparr>,
                                 replicate 9 \<lparr>NormalizedLandmark.x = 1/4, y = 3/4\<rparr>],
               handedness = [[\<lparr>categoryName = ''Right'', score = 1\<rparr>],
                             [\<lparr>categoryName = ''left'', score = 1\<rparr>]]\<rparr>
     = Some \<lparr>left = \<lparr>HandData.present = False, x = 0, y = 0, pinch = 0\<rparr>,
             right = \<lparr>HandData.present = True, x = 1/2, y = -1/2, pinch = 0\<rparr>\<rparr> \<and>
   handLogic \<lparr>landmarks = Some [replicate 9 \<lparr>NormalizedLandmark.x = 1/2, y = 1/2\<rparr>,
                                 replicate 9 \<lparr>NormalizedLandmark.x = 1/4, y = 3/4\<rparr>],
               handedness = [[\<lparr>categoryName = ''Left'', score = 1\<rparr>],
                             [\<lparr>categoryName = ''Left'', score = 1\<rparr>]]\<rparr>
     = Some \<lparr>left = \<lparr>HandData.present = True, x = 1/2, y = -1/2, pinch = 0\<rparr>,
             right = \<lparr>HandData.present = False, x = 0, y = 0, pinch = 0\<rparr>\<rparr> \<and>
   signalOf [replicate 9 \<lparr>NormalizedLandmark.x = 1/2, y = 1/2\<rparr>,
             replicate 9 \<lparr>NormalizedLandmark.x = 1/4, y = 3/4\<rparr>] 1
     = Some \<lparr>HandData.present = True, x = 1/2, y = -1/2, pinch = 0\<rparr>"
proof -
  let ?lms = "[replicate 9 \<lparr>NormalizedLandmark.x = 1/2, y = 1/2\<rparr>,
               replicate 9 \<lparr>NormalizedLandmark.x = 1/4, y = 3/4 :: real\<rparr>]"
  let ?A = "\<lparr>landmarks = Some ?lms,
             handedness = [[\<lparr>categoryName = ''Right'', score = 1\<rparr>],
                           [\<lparr>categoryName = ''left'', score = 1\<rparr>]]\<rparr>"
  let ?B = "\<lparr>landmarks = Some ?lms,
             handedness = [[\<lparr>categoryName = ''Left'', score = 1\<rparr>],
                           [\<lparr>categoryName = ''Left'', score = 1\<rparr>]]\<rparr>"
  let ?sg = "\<lparr>HandData.present = True, x = 1/2, y = -1/2, pinch = 0 :: real\<rparr>"
  let ?no = "\<lparr>HandData.present = False, x = 0, y = 0, pinch = 0 :: real\<rparr>"
  have wfA: "length ?lms \<le> length (handedness ?A) \<and>
      (\<forall>k<length ?lms. 9 \<le> length (?lms ! k) \<and> handedness ?A ! k \<noteq> [])"
    by (auto simp add: less_Suc_eq numeral_2_eq_2)
  have wfB: "length ?lms \<le> length (handedness ?B) \<and>
      (\<forall>k<length ?lms. 9 \<le> length (?lms ! k) \<and> handedness ?B ! k \<noteq> [])"
    by (auto simp add: less_Suc_eq numeral_2_eq_2)
  have lmsA: "landmarks ?A = Some ?lms" and lmsB: "landmarks ?B = Some ?lms" by simp_all
  have len: "(1::nat) < length ?lms" by simp
  have labA: "labelOf ?A 1 = Some ''left''" and labB: "labelOf ?B 1 = Some ''Left''"
    by (simp_all add: labelOf_def item_def)
  have laterA: "\<forall>j. 1 < j \<and> j < length ?lms \<longrightarrow> labelOf ?A j = Some ''Left''" by auto
  have laterB: "\<forall>j. 1 < j \<and> j < length ?lms \<longrightarrow> labelOf ?B j \<noteq> Some ''Left''" by auto
  have sg: "signalOf ?lms 1 = Some ?sg"
    by (simp add: signalOf_def item_def handSignal_def pinchOfDistance_def)
  from handLogic_label_slots [OF lmsA, of newHands 0 "''''"] wfA
  obtain outA where runA: "handLogic ?A = Some outA" by blast
  from handLogic_label_slots [OF lmsB, of newHands 0 "''''"] wfB
  obtain outB where runB: "handLogic ?B = Some outB" by blast
  have rA: "right outA = ?sg"
    using handLogic_label_slots [OF lmsA, of outA 1 "''left''"] runA len labA laterA sg by simp
  have lB: "left outB = ?sg"
    using handLogic_label_slots [OF lmsB, of outB 1 "''Left''"] runB len labB laterB sg by simp
  have lA: "left outA = ?no"
    using runA by (simp add: handLogic_def handStep_def labelOf_def signalOf_def item_def
        newHands_def upt_rec [of 0] upt_rec [of 1] upt_rec [of 2] split: option.splits) auto
  have rB: "right outB = ?no"
    using runB by (simp add: handLogic_def handStep_def labelOf_def signalOf_def item_def
        newHands_def upt_rec [of 0] upt_rec [of 1] upt_rec [of 2] split: option.splits) auto
  have "outA = \<lparr>left = ?no, right = ?sg\<rparr>" using lA rA by (cases outA) simp
  moreover have "outB = \<lparr>left = ?sg, right = ?no\<rparr>" using lB rB by (cases outB) simp
  ultimately show ?thesis using runA runB sg by simp
qed

section \<open>Properties of the lighting\<close>

text \<open>
  Claim C8. The cascade of the lighting takes the same branch as the cascade of the
  palette on every face: the palette is JOY exactly when the lighting targets are the
  JOY targets, and the same for SURPRISE, MOODY and the neutral targets (face absent or no
  threshold passed). A present face with smile 0.6 selects the JOY palette and the targets
  colour ''#FF9AA2'', intensity 150, ambient 1.2. Every light that is mounted moves to its
  target by the fraction 0.05 per frame.
\<close>

theorem lighting_mirrors_palette:
  "(fst (nextPalette f) = JOY \<longleftrightarrow>
      lightingTargets f = \<lparr>targetColor1 = ''#FF9AA2'', targetColor2 = ''#FFDAC1'',
                            targetIntensity = 150, targetAmbient = 1.2\<rparr>) \<and>
   (fst (nextPalette f) = SURPRISE \<longleftrightarrow>
      lightingTargets f = \<lparr>targetColor1 = ''#39FF14'', targetColor2 = ''#00FF41'',
                            targetIntensity = 300, targetAmbient = 0.1\<rparr>) \<and>
   (fst (nextPalette f) = MOODY \<longleftrightarrow>
      lightingTargets f = \<lparr>targetColor1 = ''#001219'', targetColor2 = ''#0a9396'',
                            targetIntensity = 200, targetAmbient = 0.05\<rparr>) \<and>
   (fst (nextPalette f) = DEFAULT \<longleftrightarrow>
      lightingTargets f = \<lparr>targetColor1 = ''#00ffff'', targetColor2 = ''#ffaa00'',
                            targetIntensity = 80, targetAmbient = 0.5\<rparr>) \<and>
   (FaceData.present f \<and> smile f = 0.6 \<longrightarrow>
      PALETTES (fst (nextPalette f)) = [''#FF9AA2'', ''#FFB7B2'', ''#FFDAC1'', ''#E2F0CB'', ''#B5EAD7''] \<and>
      targetColor1 (lightingTargets f) = ''#FF9AA2'' \<and>
      targetIntensity (lightingTargets f) = 150 \<and>
      targetAmbient (lightingTargets f) = 1.2) \<and>
   (spot1 L = Some s1 \<longrightarrow>
      spot1 (lightingFrame parse f L) =
        Some \<lparr>color = Color_lerp (color s1) (parse (targetColor1 (lightingTargets f))) 0.05,
              intensity = intensity s1 + (targetIntensity (lightingTargets f) - intensity s1) * 0.05\<rparr>) \<and>
   (spot2 L = Some s2 \<longrightarrow>
      spot2 (lightingFrame parse f L) =
        Some \<lparr>color = Color_lerp (color s2) (parse (targetColor2 (lightingTargets f))) 0.05,
              intensity = intensity s2 + (targetIntensity (lightingTargets f) - intensity s2) * 0.05\<rparr>) \<and>
   (ambient L = Some amb \<longrightarrow>
      ambient (lightingFrame parse f L) =
        Some (amb + (targetAmbient (lightingTargets f) - amb) * 0.05))"
proof -
  have branch: "(fst (nextPalette f) = JOY \<longleftrightarrow>
      lightingTargets f = \<lparr>targetColor1 = ''#FF9AA2'', targetColor2 = ''#FFDAC1'',
                            targetIntensity = 150, targetAmbient = 1.2\<rparr>) \<and>
   (fst (nextPalette f) = SURPRISE \<longleftrightarrow>
      lightingTargets f = \<lparr>targetColor1 = ''#39FF14'', targetColor2 = ''#00FF41'',
                            targetIntensity = 300, targetAmbient = 0.1\<rparr>) \<and>
   (fst (nextPalette f) = MOODY \<longleftrightarrow>
      lightingTargets f = \<lparr>targetColor1 = ''#001219'', targetColor2 = ''#0a9396'',
                            targetIntensity = 200, targetAmbient = 0.05\<rparr>) \<and>
   (fst (nextPalette f) = DEFAULT \<longleftrightarrow>
      lightingTargets f = \<lparr>targetColor1 = ''#00ffff'', targetColor2 = ''#ffaa00'',
                            targetIntensity = 80, targetAmbient = 0.5\<rparr>)"
    by (simp add: nextPalette_def lightingTargets_def)
  have joy: "FaceData.present f \<and> smile f = 0.6 \<longrightarrow>
      PALETTES (fst (nextPalette f)) = [''#FF9AA2'', ''#FFB7B2'', ''#FFDAC1'', ''#E2F0CB'', ''#B5EAD7''] \<and>
      targetColor1 (lightingTargets f) = ''#FF9AA2'' \<and>
      targetIntensity (lightingTargets f) = 150 \<and>
      targetAmbient (lightingTargets f) = 1.2"
    by (simp add: nextPalette_def lightingTargets_def)
  have ml: "MathUtils_lerp a c lightLerpSpeed = a + (c - a) * 0.05" for a c
    by (simp add: MathUtils_lerp_def lightLerpSpeed_def field_simps)
  have lerps: "(spot1 L = Some s1 \<longrightarrow>
      spot1 (lightingFrame parse f L) =
        Some \<lparr>color = Color_lerp (color s1) (parse (targetColor1 (lightingTargets f))) 0.05,
              intensity = intensity s1 + (targetIntensity (lightingTargets f) - intensity s1) * 0.05\<rparr>) \<and>
   (spot2 L = Some s2 \<longrightarrow>
      spot2 (lightingFrame parse f L) =
        Some \<lparr>color = Color_lerp (color s2) (parse (targetColor2 (lightingTargets f))) 0.05,
              intensity = intensity s2 + (targetIntensity (lightingTargets f) - intensity s2) * 0.05\<rparr>) \<and>
   (ambient L = Some amb \<longrightarrow>
      ambient (lightingFrame parse f L) =
        Some (amb + (targetAmbient (lightingTargets f) - amb) * 0.05))"
    by (auto simp add: lightingFrame_def Let_def ml) (simp_all add: lightLerpSpeed_def)
  from branch joy lerps show ?thesis by blast
qed

theorem lighting_mirrors_palette_witness:
  "fst (nextPalette \<lparr>present = True, smile = 0.6, mouthOpen = 0, browDown = 0\<rparr>) = JOY \<and>
   targetColor1 (lightingTargets \<lparr>present = True, smile = 0.6, mouthOpen = 0, browDown = 0\<rparr>) = ''#FF9AA2'' \<and>
   targetIntensity (lightingTargets \<lparr>present = True, smile = 0.6, mouthOpen = 0, browDown = 0\<rparr>) = 150 \<and>
   targetAmbient (lightingTargets \<lparr>present = True, smile = 0.6, mouthOpen = 0, browDown = 0\<rparr>) = 1.2 \<and>
   lightingFrame (\<lambda>h. \<lparr>r = 1, g = 1, b = 1\<rparr>)
       \<lparr>present = True, smile = 0.6, mouthOpen = 0, browDown = 0\<rparr>
       \<lparr>spot1 = Some \<lparr>color = \<lparr>r = 0, g = 0, b = 0\<rparr>, intensity = 80\<rparr>,
        spot2 = Some \<lparr>color = \<lparr>r = 0, g = 0, b = 0\<rparr>, intensity = 80\<rparr>,
        ambient = Some 0.5\<rparr>
     = \<lparr>spot1 = Some \<lparr>color = \<lparr>r = 0.05, g = 0.05, b = 0.05\<rparr>, intensity = 83.5\<rparr>,
        spot2 = Some \<lparr>color = \<lparr>r = 0.05, g = 0.05, b = 0.05\<rparr>, intensity = 83.5\<rparr>,
        ambient = Some 0.535\<rparr>"
proof -
  let ?f = "\<lparr>present = True, smile = 0.6, mouthOpen = 0, browDown = 0\<rparr>"
  let ?L = "\<lparr>spot1 = Some \<lparr>color = \<lparr>r = 0, g = 0, b = 0\<rparr>, intensity = 80\<rparr>,
        spot2 = Some \<lparr>color = \<lparr>r = 0, g = 0, b = 0\<rparr>, intensity = 80\<rparr>,
        ambient = Some 0.5\<rparr>"
  note t = lighting_mirrors_palette [of ?f ?L "\<lparr>color = \<lparr>r = 0, g = 0, b = 0\<rparr>, intensity = 80\<rparr>"
      "\<lambda>h. \<lparr>r = 1, g = 1, b = 1\<rparr>" "\<lparr>color = \<lparr>r = 0, g = 0, b = 0\<rparr>, intensity = 80\<rparr>" "0.5"]
  have j: "fst (nextPalette ?f) = JOY" using t by (simp add: nextPalette_def)
  have eq: "lightingFrame (\<lambda>h. \<lparr>r = 1, g = 1, b = 1\<rparr>) ?f ?L =
     \<lparr>spot1 = spot1 (lightingFrame (\<lambda>h. \<lparr>r = 1, g = 1, b = 1\<rparr>) ?f ?L),
      spot2 = spot2 (lightingFrame (\<lambda>h. \<lparr>r = 1, g = 1, b = 1\<rparr>) ?f ?L),
      ambient = ambient (lightingFrame (\<lambda>h. \<lparr>r = 1, g = 1, b = 1\<rparr>) ?f ?L)\<rparr>"
    by simp
  show ?thesis
    using t j by (subst eq) (simp add: Color_lerp_def)
qed

section \<open>Properties of the audio features\<close>

lemma decay_branch:
  "\<not> (analyser \<and> (m = MIC \<or> m = THEREMIN) \<and> d \<noteq> None) \<Longrightarrow>
   audioFrame True analyser m d a =
     \<lparr>low = lerp (low a) 0 0.1, high = lerp (high a) 0 0.1, vol = lerp (vol a) 0 0.1\<rparr>"
  by (auto simp add: audioFrame_def)

lemma lerp_zero: "lerp v 0 0.1 = v * (9 / 10)"
  by (simp add: lerp_def field_simps)

lemma audioFrames_decay:
  "\<not> (analyser \<and> (m = MIC \<or> m = THEREMIN) \<and> d \<noteq> None) \<Longrightarrow>
   audioFrames n True analyser m d a =
     \<lparr>low = low a * (9 / 10) ^ n, high = high a * (9 / 10) ^ n, vol = vol a * (9 / 10) ^ n\<rparr>"
proof (induction n arbitrary: a)
  case 0
  then show ?case by simp
next
  case (Suc n)
  show ?case
    using Suc.prems by (simp add: decay_branch Suc.IH lerp_zero)
qed

text \<open>
  The other branch, for comparison: with an analyser, an analysing mode and a buffer the
  features move by the fraction 0.3 towards the band averages of the buffer.
\<close>

lemma analysis_branch:
  assumes "m = MIC \<or> m = THEREMIN" and "analyse buf = (avgBass, avgHigh, avgVol)"
  shows "audioFrame True True m (Some buf) a =
     \<lparr>low = low a + (avgBass - low a) * 0.3, high = high a + (avgHigh - high a) * 0.3,
      vol = vol a + (avgVol - vol a) * 0.3\<rparr>"
  using assms by (auto simp add: audioFrame_def lerp_def)

text \<open>The mode-change effect leaves the features alone in the two analysing modes.\<close>

lemma setupAudio_keeps: "m = MIC \<or> m = THEREMIN \<Longrightarrow> setupAudio listener m a = a"
  by (auto simp add: setupAudio_def)

text \<open>
  Claim C4, as the code has it. In a frame with mode OFF, and in every other frame in
  which the decay branch runs (the analyser or the buffer is missing), every feature \<open>v\<close>
  moves towards 0 by the lerp factor 0.1: it becomes \<open>v + (0 - v) * 0.1\<close>. A feature that
  is not negative (the features range over [0, 1]) does not increase and does not become
  negative, and a frame never sets a feature that is not zero to zero. After \<open>n\<close> such
  frames a feature is \<open>v * 0.9 ^ n\<close>, and for every \<open>eps > 0\<close> all three features are
  within \<open>eps\<close> of 0 from some frame on. Entering mode OFF is the exception: the effect
  that sets the mode up replaces all three features by 0 at once.
\<close>

theorem audio_decay:
  assumes "\<not> (analyser \<and> (m = MIC \<or> m = THEREMIN) \<and> d \<noteq> None)"
  shows "audioFrame True analyser OFF d a = audioFrame True analyser m d a \<and>
         low (audioFrame True analyser m d a) = low a + (0 - low a) * 0.1 \<and>
         high (audioFrame True analyser m d a) = high a + (0 - high a) * 0.1 \<and>
         vol (audioFrame True analyser m d a) = vol a + (0 - vol a) * 0.1 \<and>
         (0 \<le> low a \<longrightarrow> 0 \<le> low (audioFrame True analyser m d a) \<and>
            low (audioFrame True analyser m d a) \<le> low a) \<and>
         (0 \<le> high a \<longrightarrow> 0 \<le> high (audioFrame True analyser m d a) \<and>
            high (audioFrame True analyser m d a) \<le> high a) \<and>
         (0 \<le> vol a \<longrightarrow> 0 \<le> vol (audioFrame True analyser m d a) \<and>
            vol (audioFrame True analyser m d a) \<le> vol a) \<and>
         (low a \<noteq> 0 \<longrightarrow> low (audioFrame True analyser m d a) \<noteq> 0) \<and>
         (high a \<noteq> 0 \<longrightarrow> high (audioFrame True analyser m d a) \<noteq> 0) \<and>
         (vol a \<noteq> 0 \<longrightarrow> vol (audioFrame True analyser m d a) \<noteq> 0) \<and>
         audioFrames n True analyser m d a =
           \<lparr>low = low a * 0.9 ^ n, high = high a * 0.9 ^ n, vol = vol a * 0.9 ^ n\<rparr> \<and>
         (\<forall>eps>0. \<exists>N. \<forall>n\<ge>N.
              \<bar>low (audioFrames n True analyser m d a)\<bar> < eps \<and>
              \<bar>high (audioFrames n True analyser m d a)\<bar> < eps \<and>
              \<bar>vol (audioFrames n True analyser m d a)\<bar> < eps) \<and>
         setupAudio True OFF a = \<lparr>low = 0, high = 0, vol = 0\<rparr>"
proof -
  have fr: "audioFrame True analyser m d a =
      \<lparr>low = low a * (9 / 10), high = high a * (9 / 10), vol = vol a * (9 / 10)\<rparr>"
    using assms by (simp add: decay_branch lerp_zero)
  have off: "audioFrame True analyser OFF d a = audioFrame True analyser m d a"
    using assms by (simp add: decay_branch)
  have one: "low (audioFrame True analyser m d a) = low a + (0 - low a) * 0.1 \<and>
         high (audioFrame True analyser m d a) = high a + (0 - high a) * 0.1 \<and>
         vol (audioFrame True analyser m d a) = vol a + (0 - vol a) * 0.1"
    by (simp add: fr)
  have mono: "(0 \<le> low a \<longrightarrow> 0 \<le> low (audioFrame True analyser m d a) \<and>
            low (audioFrame True analyser m d a) \<le> low a) \<and>
         (0 \<le> high a \<longrightarrow> 0 \<le> high (audioFrame True analyser m d a) \<and>
            high (audioFrame True analyser m d a) \<le> high a) \<and>
         (0 \<le> vol a \<longrightarrow> 0 \<le> vol (audioFrame True analyser m d a) \<and>
            vol (audioFrame True analyser m d a) \<le> vol a)"
    by (simp add: fr)
  have nz: "(low a \<noteq> 0 \<longrightarrow> low (audioFrame True analyser m d a) \<noteq> 0) \<and>
         (high a \<noteq> 0 \<longrightarrow> high (audioFrame True analyser m d a) \<noteq> 0) \<and>
         (vol a \<noteq> 0 \<longrightarrow> vol (audioFrame True analyser m d a) \<noteq> 0)"
    by (simp add: fr)
  have many: "audioFrames n True analyser m d a =
           \<lparr>low = low a * 0.9 ^ n, high = high a * 0.9 ^ n, vol = vol a * 0.9 ^ n\<rparr>" for n
    using audioFrames_decay [OF assms, of n a] by simp
  have conv: "\<forall>eps>0. \<exists>N. \<forall>n\<ge>N.
              \<bar>low (audioFrames n True analyser m d a)\<bar> < eps \<and>
              \<bar>high (audioFrames n True analyser m d a)\<bar> < eps \<and>
              \<bar>vol (audioFrames n True analyser m d a)\<bar> < eps"
  proof (intro allI impI)
    fix eps :: real
    assume e: "0 < eps"
    have q: "(0::real) \<le> 0.9" "(0.9::real) < 1" by simp_all
    obtain N1 where N1: "\<forall>n\<ge>N1. \<bar>low a\<bar> * 0.9 ^ n < eps"
      using geometric_small [OF q e] by blast
    obtain N2 where N2: "\<forall>n\<ge>N2. \<bar>high a\<bar> * 0.9 ^ n < eps"
      using geometric_small [OF q e] by blast
    obtain N3 where N3: "\<forall>n\<ge>N3. \<bar>vol a\<bar> * 0.9 ^ n < eps"
      using geometric_small [OF q e] by blast
    have "\<forall>n\<ge>max N1 (max N2 N3).
              \<bar>low (audioFrames n True analyser m d a)\<bar> < eps \<and>
              \<bar>high (audioFrames n True analyser m d a)\<bar> < eps \<and>
              \<bar>vol (audioFrames n True analyser m d a)\<bar> < eps"
      using N1 N2 N3 by (simp add: many abs_mult)
    then show "\<exists>N. \<forall>n\<ge>N.
              \<bar>low (audioFrames n True analyser m d a)\<bar> < eps \<and>
              \<bar>high (audioFrames n True analyser m d a)\<bar> < eps \<and>
              \<bar>vol (audioFrames n True analyser m d a)\<bar> < eps"
      by blast
  qed
  have reset: "setupAudio True OFF a = \<lparr>low = 0, high = 0, vol = 0\<rparr>"
    by (simp add: setupAudio_def)
  from off one mono nz many conv reset show ?thesis by blast
qed

theorem audio_decay_witness:
  "audioFrame True True OFF (Some (\<lambda>i. 0)) \<lparr>low = 1, high = 1/2, vol = 0\<rparr>
     = \<lparr>low = 9/10, high = 9/20, vol = 0\<rparr> \<and>
   audioFrames 2 True True OFF (Some (\<lambda>i. 0)) \<lparr>low = 1, high = 1/2, vol = 0\<rparr>
     = \<lparr>low = 81/100, high = 81/200, vol = 0\<rparr> \<and>
   (\<exists>N. \<forall>n\<ge>N.
        \<bar>low (audioFrames n True True OFF (Some (\<lambda>i. 0)) \<lparr>low = 1, high = 1/2, vol = 0\<rparr>)\<bar> < 1/100 \<and>
        \<bar>high (audioFrames n True True OFF (Some (\<lambda>i. 0)) \<lparr>low = 1, high = 1/2, vol = 0\<rparr>)\<bar> < 1/100 \<and>
        \<bar>vol (audioFrames n True True OFF (Some (\<lambda>i. 0)) \<lparr>low = 1, high = 1/2, vol = 0\<rparr>)\<bar> < 1/100)"
proof -
  let ?d = "Some (\<lambda>i::nat. 0 :: 8 word)"
  let ?a = "\<lparr>low = 1, high = 1/2, vol = 0 :: real\<rparr>"
  have h: "\<not> (True \<and> (OFF = MIC \<or> OFF = THEREMIN) \<and> ?d \<noteq> None)" by simp
  note t = audio_decay [OF h, of ?a]
  have c: "\<exists>N. \<forall>n\<ge>N.
        \<bar>low (audioFrames n True True OFF ?d ?a)\<bar> < 1/100 \<and>
        \<bar>high (audioFrames n True True OFF ?d ?a)\<bar> < 1/100 \<and>
        \<bar>vol (audioFrames n True True OFF ?d ?a)\<bar> < 1/100"
  proof -
    have "\<forall>eps>0. \<exists>N. \<forall>n\<ge>N.
        \<bar>low (audioFrames n True True OFF ?d ?a)\<bar> < eps \<and>
        \<bar>high (audioFrames n True True OFF ?d ?a)\<bar> < eps \<and>
        \<bar>vol (audioFrames n True True OFF ?d ?a)\<bar> < eps"
      using t [of 0] by blast
    from this [rule_format, of "1/100"] show ?thesis by simp
  qed
  have one: "audioFrame True True OFF ?d ?a = \<lparr>low = 9/10, high = 9/20, vol = 0\<rparr>"
    using t [of 1] by simp
  have two: "audioFrames 2 True True OFF ?d ?a = \<lparr>low = 81/100, high = 81/200, vol = 0\<rparr>"
    using t [of 2] by (simp add: power2_eq_square)
  from one two c show ?thesis by blast
qed

text \<open>
  The claim as the spec states it fails when the mode becomes OFF: the effect snaps the
  features to zero. From low = 0.8 it gives low = 0, not 0.8 + (0 - 0.8) * 0.1 = 0.72.
\<close>

theorem audio_snap_counterexample:
  "setupAudio True OFF \<lparr>low = 4/5, high = 1/2, vol = 3/10\<rparr> = \<lparr>low = 0, high = 0, vol = 0\<rparr> \<and>
   low (setupAudio True OFF \<lparr>low = 4/5, high = 1/2, vol = 3/10\<rparr>) \<noteq> 4/5 + (0 - 4/5) * 0.1"
  by (simp add: setupAudio_def)

end
